theory Spec2Isabelle
  imports Complex_Main
begin

section \<open>Chord extraction from MIDI event streams (main.py)\<close>

text \<open>
  The development embeds \<^verbatim>\<open>src/main.py\<close>. The services of the libraries
  \<^verbatim>\<open>mido\<close> and \<^verbatim>\<open>music21\<close> are not part of the repository; they appear as
  parameters: the decoded MIDI file, the answer of the chord-symbol constructor, the outcome
  of the melody parser and of the notation writer.

  Conventions.
  \<^item> A data byte of a MIDI message is a natural number.
  \<^item> A text of a meta message is a \<open>string\<close>: mido decodes meta text as Latin-1, so
    every character is one code point below 256, which is what \<open>char\<close> holds.
  \<^item> An offset is a rational number, and the model divides exactly. Line 126 divides in
    floating point, and the offset property of music21 may replace the float by a fraction
    with a small denominator; neither is modelled. The three agree where the quotient is an
    integer below \<open>2 ^ 53\<close> in magnitude, and statements about the value of an offset are
    made for such quotients only. Rounding is monotone, so the order of offsets is not affected.
  \<^item> Console output is a list of abstract lines, in the order printed.
\<close>

subsection \<open>Messages of the merged stream\<close>

type_synonym byte = nat

datatype text_kind = Text | Lyrics | Marker

text \<open>
  A message as \<^verbatim>\<open>mido.merge_tracks\<close> yields it: \<open>time\<close> is the delta time in ticks,
  the body is what \<^verbatim>\<open>msg.type\<close> and the attributes of that type say. Only meta messages
  have the types \<^verbatim>\<open>sequencer_specific\<close>, \<^verbatim>\<open>text\<close>, \<^verbatim>\<open>lyrics\<close>, \<^verbatim>\<open>marker\<close>
  and \<^verbatim>\<open>track_name\<close>.
\<close>

datatype msg_body =
    SequencerSpecific "byte list"
  | MetaText text_kind string
  | TrackName string
  | OtherMsg

record msg =
  time :: int
  body :: msg_body

record midi_file =
  ticks_per_beat :: int
  merged :: "msg list"

record chord_symbol =
  figure :: string
  offset :: rat

datatype console_line =
    TpqMismatchWarning int int
  | OpenError
  | DebugXfEvent int byte nat "byte list"
  | DebugParsedChord "byte list" string
  | DebugText int text_kind string
  | DebugTextNotChord string
  | ChordCreateWarning string
  | ScanSummary nat

subsection \<open>The XF chord table\<close>

definition XF_META_HEADER :: "byte list" where
  "XF_META_HEADER = [0x43, 0x7B]"

definition XF_CHORD_ID :: byte where
  "XF_CHORD_ID = 0x01"

definition xf_chord_table :: "(byte list \<times> string) list" where
  "xf_chord_table =
    [([0x31, 0x22], ''C#m7''), ([0x26, 0x02], ''Fm7''), ([0x27, 0x13], ''F#add9''),
     ([0x35, 0x0A], ''G#7#9''), ([0x31, 0x08], ''C#sus4''), ([0x35, 0x13], ''G#add9''),
     ([0x23, 0x13], ''D#add9''), ([0x23, 0x00], ''D#''), ([0x27, 0x00], ''F#''),
     ([0x23, 0x13, 0x27], ''D#add9/F#''), ([0x23, 0x00, 0x35], ''D#/G#''),
     ([0x27, 0x0A], ''F#7#9''), ([0x26, 0x00], ''Fm''), ([0x35, 0x13, 0x37], ''G#add9/A#''),
     ([0x31, 0x0A], ''C#7#9''), ([0x27, 0x0A, 0x22], ''F#7#9/C#''), ([0x35, 0x00], ''G#''),
     ([0x35, 0x00, 0x37], ''G#/A#''), ([0x27, 0x08], ''F#sus4''),
     ([0x35, 0x02], ''G#m7''), ([0x36, 0x13], ''Aadd9''), ([0x44, 0x0A], ''E7#9''),
     ([0x37, 0x08], ''A#sus4''), ([0x32, 0x13, 0x31], ''Dm7/C#''), ([0x32, 0x00], ''D''),
     ([0x45, 0x00], ''F''), ([0x36, 0x00], ''A''), ([0x27, 0x02], ''F#m7''),
     ([0x34, 0x00, 0x23], ''Fm/D#''), ([0x34, 0x00], ''Fm''), ([0x31, 0x00], ''C#''),
     ([0x36, 0x13, 0x41], ''Aadd9/C#''), ([0x34, 0x13, 0x23], ''Fmadd9/D#''),
     ([0x23, 0x13, 0x22], ''D#add9/C#''), ([0x23, 0x00, 0x27], ''D#/F#''),
     ([0x44, 0x13], ''Eadd9''), ([0x32, 0x08], ''Dsus4''), ([0x31, 0x13], ''C#add9''),
     ([0x36, 0x0A], ''A7#9''), ([0x32, 0x0A], ''D7#9''),
     ([0x52, 0, 35], ''Fm/D#''), ([0x52, 19, 35], ''Fmadd9/D#'')]"

text \<open>
  \<^verbatim>\<open>xf_chord_map.get(chord_bytes)\<close>: the dictionary literal has no key twice (lemma
  \<open>xf_chord_table_distinct\<close> below), so the first entry of the list is the only one.
\<close>

definition xf_chord_map :: "byte list \<Rightarrow> string option" where
  "xf_chord_map = map_of xf_chord_table"

subsection \<open>The regular expression of the text recognizer\<close>

text \<open>
  The fragment of Python's \<^verbatim>\<open>re\<close> syntax that the chord pattern uses: a character
  set, a negated set and the dot, each once or under a greedy star; a literal; sequence;
  alternation (left first); the greedy option; the capturing group; the word boundary.
\<close>

datatype atom = InSet string | NotInSet string | AnyChar

datatype regex =
    One atom
  | Many atom
  | Lit string
  | Seq regex regex
  | Alt regex regex
  | Opt regex
  | Group regex
  | WordBoundary

fun atom_ok :: "atom \<Rightarrow> char \<Rightarrow> bool" where
  "atom_ok (InSet cs) c = (c \<in> set cs)"
| "atom_ok (NotInSet cs) c = (c \<notin> set cs)"
| "atom_ok AnyChar c = (c \<noteq> CHR 0x0A)"

text \<open>
  \<^verbatim>\<open>\w\<close> of a \<^verbatim>\<open>str\<close> pattern: the alphanumeric code points and the underscore. Below
  256 these are the ASCII letters and digits, the underscore, and the Latin-1 letters,
  ordinals, superscript digits and fractions.
\<close>

definition is_word :: "char \<Rightarrow> bool" where
  "is_word c =
    (let n = (of_char c :: nat) in
       (0x30 \<le> n \<and> n \<le> 0x39) \<or> (0x41 \<le> n \<and> n \<le> 0x5A) \<or> n = 0x5F \<or>
       (0x61 \<le> n \<and> n \<le> 0x7A) \<or>
       n = 0xAA \<or> n = 0xB2 \<or> n = 0xB3 \<or> n = 0xB5 \<or> n = 0xB9 \<or> n = 0xBA \<or>
       (0xBC \<le> n \<and> n \<le> 0xBE) \<or> (0xC0 \<le> n \<and> n \<le> 0xD6) \<or>
       (0xD8 \<le> n \<and> n \<le> 0xF6) \<or> 0xF8 \<le> n)"

definition word_at :: "string \<Rightarrow> nat \<Rightarrow> bool" where
  "word_at t p = (p < length t \<and> is_word (t ! p))"

definition at_boundary :: "string \<Rightarrow> nat \<Rightarrow> bool" where
  "at_boundary t p = ((0 < p \<and> word_at t (p - 1)) \<noteq> word_at t p)"

text \<open>
  A state of the matcher is the position in the text and the span of group 1, if it has
  been closed. \<open>run\<close> lists the states a pattern can end in from a state, in the order
  the backtracking matcher tries them: the head is the match that is taken.
\<close>

type_synonym mstate = "nat \<times> (nat \<times> nat) option"

fun run :: "string \<Rightarrow> regex \<Rightarrow> mstate \<Rightarrow> mstate list" where
  "run t (One a) (p, g) = (if p < length t \<and> atom_ok a (t ! p) then [(Suc p, g)] else [])"
| "run t (Many a) (p, g) =
     map (\<lambda>k. (p + k, g)) (rev [0..<Suc (length (takeWhile (atom_ok a) (drop p t)))])"
| "run t (Lit s) (p, g) =
     (if take (length s) (drop p t) = s then [(p + length s, g)] else [])"
| "run t (Seq r1 r2) s = concat (map (run t r2) (run t r1 s))"
| "run t (Alt r1 r2) s = run t r1 s @ run t r2 s"
| "run t (Opt r) s = run t r s @ [s]"
| "run t (Group r) (p, g) = map (\<lambda>(q, _). (q, Some (p, q))) (run t r (p, g))"
| "run t WordBoundary (p, g) = (if at_boundary t p then [(p, g)] else [])"

fun search_from :: "string \<Rightarrow> regex \<Rightarrow> nat list \<Rightarrow> mstate option" where
  "search_from t r [] = None"
| "search_from t r (p # ps) =
     (case run t r (p, None) of [] \<Rightarrow> search_from t r ps | s # _ \<Rightarrow> Some s)"

text \<open>\<^verbatim>\<open>re.search(pattern, text)\<close>: the first start position with a match.\<close>

definition re_search :: "regex \<Rightarrow> string \<Rightarrow> mstate option" where
  "re_search r t = search_from t r [0..<Suc (length t)]"

text \<open>\<^verbatim>\<open>match.group(1)\<close>; a group that took no part gives \<open>None\<close>.\<close>

fun group1 :: "string \<Rightarrow> mstate \<Rightarrow> string option" where
  "group1 t (q, None) = None"
| "group1 t (q, Some (a, b)) = Some (take (b - a) (drop a t))"

definition chord_root :: regex where
  "chord_root = One (InSet ''ABCDEFG'')"

definition accidental :: regex where
  "accidental = Opt (One (InSet ''b#''))"

definition quality :: regex where
  "quality =
     Opt (Alt (Lit ''maj'') (Alt (Lit ''min'') (Alt (Lit ''m'') (Alt (Lit ''M'')
       (Alt (Lit ''dim'') (Alt (Lit ''aug'') (Alt (Lit ''sus'') (Alt (Lit ''add'')
         (One (InSet ''-_''))))))))))"

text \<open>
  \<^verbatim>\<open>[^A-G]*([A-G][b#]?(?:maj|min|m|M|dim|aug|sus|add|[-_])?[0-9]*(?:\(.*\))?(?:/[A-G][b#]?)?)\b\<close>
\<close>

definition chord_pattern :: regex where
  "chord_pattern =
     Seq (Many (NotInSet ''ABCDEFG''))
      (Seq (Group
         (Seq chord_root (Seq accidental (Seq quality (Seq (Many (InSet ''0123456789''))
           (Seq (Opt (Seq (Lit ''('') (Seq (Many AnyChar) (Lit '')''))))
             (Opt (Seq (Lit ''/'') (Seq chord_root accidental)))))))))
        WordBoundary)"

text \<open>\<^verbatim>\<open>str.strip()\<close>: the white space of \<^verbatim>\<open>str.isspace\<close> below code point 256.\<close>

definition is_space :: "char \<Rightarrow> bool" where
  "is_space c =
    (let n = (of_char c :: nat) in
       (0x09 \<le> n \<and> n \<le> 0x0D) \<or> (0x1C \<le> n \<and> n \<le> 0x20) \<or> n = 0x85 \<or> n = 0xA0)"

definition strip :: "string \<Rightarrow> string" where
  "strip s = rev (dropWhile is_space (rev (dropWhile is_space s)))"

subsection \<open>Recognizing the chord of one message\<close>

text \<open>
  Method 1, lines 69 to 89: the body of the branch for a sequencer-specific message whose
  data is longer than two bytes and starts with the XF header. The result is what is printed
  and the value of \<^verbatim>\<open>current_chord_text\<close>. The \<^verbatim>\<open>continue\<close> on an empty key
  skips the rest of the iteration with \<^verbatim>\<open>current_chord_text\<close> still \<^verbatim>\<open>None\<close>, for
  which the rest of the iteration does nothing.
\<close>

definition xf_meta_event :: "bool \<Rightarrow> int \<Rightarrow> byte list \<Rightarrow> console_line list \<times> string option" where
  "xf_meta_event debug_mode tick data =
    (let event_id = data ! 2;
         dbg = (if debug_mode then [DebugXfEvent tick event_id (length data) data] else [])
     in if event_id = XF_CHORD_ID then
          (let payload = drop 3 data;
               chord_bytes = filter (\<lambda>b. b \<noteq> 0x7F) payload
           in if chord_bytes = [] then (dbg, None)
              else
                (let current_chord_text = xf_chord_map chord_bytes
                 in (case current_chord_text of
                       None \<Rightarrow> (dbg, None)
                     | Some n \<Rightarrow>
                         (if debug_mode \<and> n \<noteq> [] then dbg @ [DebugParsedChord chord_bytes n]
                          else dbg, Some n))))
        else (dbg, None))"

text \<open>
  Method 2, lines 93 to 119: the body of the branch for a text, lyrics or marker message.
  The validation failure of the chord-symbol constructor is the \<^verbatim>\<open>except\<close> branch.
  Group 1 of the pattern is not optional; were it absent, \<^verbatim>\<open>parsed_text\<close> would be
  \<^verbatim>\<open>None\<close> and so would \<^verbatim>\<open>current_chord_text\<close>, whatever the constructor does.
\<close>

definition text_meta_event ::
  "(string \<Rightarrow> bool) \<Rightarrow> bool \<Rightarrow> int \<Rightarrow> text_kind \<Rightarrow> string \<Rightarrow> console_line list \<times> string option" where
  "text_meta_event ChordSymbol_ok debug_mode tick kind msg_text =
    (let text = strip msg_text;
         dbg = (if debug_mode \<and> text \<noteq> [] then [DebugText tick kind text] else [])
     in if text \<noteq> [] then
          (case re_search chord_pattern text of
             None \<Rightarrow> (dbg, None)
           | Some m \<Rightarrow>
               (case group1 text m of
                  None \<Rightarrow> (dbg, None)
                | Some parsed_text \<Rightarrow>
                    if ChordSymbol_ok parsed_text then (dbg, Some parsed_text)
                    else (if debug_mode then dbg @ [DebugTextNotChord parsed_text] else dbg,
                          None)))
        else (dbg, None))"

text \<open>
  Lines 65 to 119: the dispatch on the message. A track name is not among
  \<^verbatim>\<open>['text', 'lyrics', 'marker']\<close>, so it is never scanned.
\<close>

definition current_chord ::
  "(string \<Rightarrow> bool) \<Rightarrow> bool \<Rightarrow> int \<Rightarrow> msg \<Rightarrow> console_line list \<times> string option" where
  "current_chord ChordSymbol_ok debug_mode tick m =
    (case body m of
       SequencerSpecific data \<Rightarrow>
         if length data > 2 \<and> take 2 data = XF_META_HEADER
         then xf_meta_event debug_mode tick data
         else ([], None)
     | MetaText kind text \<Rightarrow> text_meta_event ChordSymbol_ok debug_mode tick kind text
     | TrackName text \<Rightarrow> ([], None)
     | OtherMsg \<Rightarrow> ([], None))"

subsection \<open>The scan of the merged stream\<close>

record scan_state =
  absolute_time_ticks :: int
  chords :: "chord_symbol list"
  console :: "console_line list"

text \<open>
  Lines 121 to 129. The \<^verbatim>\<open>try\<close> block raises when the constructor rejects the text, and
  when \<^verbatim>\<open>ticks_per_quarter\<close> is zero (\<^verbatim>\<open>ZeroDivisionError\<close>); both are caught and
  reported, and nothing is appended.
\<close>

definition append_chord :: "(string \<Rightarrow> bool) \<Rightarrow> int \<Rightarrow> int \<Rightarrow> string option \<Rightarrow>
    chord_symbol list \<times> console_line list" where
  "append_chord ChordSymbol_ok ticks_per_quarter tick current_chord_text =
    (case current_chord_text of
       None \<Rightarrow> ([], [])
     | Some n \<Rightarrow>
         if n = [] then ([], [])
         else if ChordSymbol_ok n \<and> ticks_per_quarter \<noteq> 0
         then ([\<lparr>figure = n, offset = of_int tick / of_int ticks_per_quarter\<rparr>], [])
         else ([], [ChordCreateWarning n]))"

text \<open>One iteration of the loop of line 62.\<close>

definition scan_msg :: "(string \<Rightarrow> bool) \<Rightarrow> int \<Rightarrow> bool \<Rightarrow> scan_state \<Rightarrow> msg \<Rightarrow> scan_state" where
  "scan_msg ChordSymbol_ok ticks_per_quarter debug_mode st m =
    (let tick = absolute_time_ticks st + time m;
         found = current_chord ChordSymbol_ok debug_mode tick m;
         added = append_chord ChordSymbol_ok ticks_per_quarter tick (snd found)
     in \<lparr>absolute_time_ticks = tick,
         chords = chords st @ fst added,
         console = console st @ fst found @ snd added\<rparr>)"

definition scan_loop :: "(string \<Rightarrow> bool) \<Rightarrow> int \<Rightarrow> bool \<Rightarrow> scan_state \<Rightarrow> msg list \<Rightarrow> scan_state" where
  "scan_loop ChordSymbol_ok ticks_per_quarter debug_mode st ms =
     foldl (scan_msg ChordSymbol_ok ticks_per_quarter debug_mode) st ms"

text \<open>The states after each iteration, in order: the trace of the loop.\<close>

fun scan_states ::
  "(string \<Rightarrow> bool) \<Rightarrow> int \<Rightarrow> bool \<Rightarrow> scan_state \<Rightarrow> msg list \<Rightarrow> scan_state list" where
  "scan_states v tpq dbg st [] = []"
| "scan_states v tpq dbg st (m # ms) =
     scan_msg v tpq dbg st m # scan_states v tpq dbg (scan_msg v tpq dbg st m) ms"

text \<open>
  \<^verbatim>\<open>_parse_chords_from_midi\<close>. \<open>MidiFile path\<close> is \<open>None\<close> when \<^verbatim>\<open>mido.MidiFile\<close>
  raises. The result is the console output and the returned list.
\<close>

definition parse_chords_from_midi ::
  "(string \<Rightarrow> midi_file option) \<Rightarrow> (string \<Rightarrow> bool) \<Rightarrow> string \<Rightarrow> int \<Rightarrow> bool \<Rightarrow>
     console_line list \<times> chord_symbol list" where
  "parse_chords_from_midi MidiFile ChordSymbol_ok midi_path ticks_per_quarter debug_mode =
    (case MidiFile midi_path of
       None \<Rightarrow> ([OpenError], [])
     | Some mf \<Rightarrow>
         (let warn = (if ticks_per_beat mf \<noteq> ticks_per_quarter
                      then [TpqMismatchWarning ticks_per_quarter (ticks_per_beat mf)] else []);
              st = scan_loop ChordSymbol_ok ticks_per_quarter debug_mode
                     \<lparr>absolute_time_ticks = 0, chords = [], console = warn\<rparr> (merged mf)
          in (console st @ [ScanSummary (length (chords st))], chords st)))"

subsection \<open>Generating the lead sheet\<close>

text \<open>
  What the melody structural parser returns, as far as \<^verbatim>\<open>create_lead_sheet\<close> reads it.
  \<open>midiChannel\<close> is \<^verbatim>\<open>p.getInstrument().midiChannel\<close>, \<open>None\<close> when there is no
  instrument or no channel. An element stands with its offset in quarter notes.
\<close>

datatype element =
    TimeSignature string
  | KeySignature int
  | NoteOrRest string
  | Harmony string
  | OtherElement

record part =
  midiChannel :: "int option"
  elements :: "(rat \<times> element) list"

text \<open>
  The collaborators. A function that can raise returns \<open>None\<close> (or \<open>False\<close>) where it
  does. \<open>partitionByInstrument\<close> is \<open>None\<close> also where it returns \<^verbatim>\<open>None\<close>, on
  which the iteration over the parts raises.
\<close>

record 's env =
  MidiFile :: "string \<Rightarrow> midi_file option"
  ChordSymbol_ok :: "string \<Rightarrow> bool"
  converter_parse :: "string \<Rightarrow> 's option"
  partitionByInstrument :: "'s \<Rightarrow> part list option"
  path_exists :: "string \<Rightarrow> bool"
  write_ok :: "string \<Rightarrow> bool"

datatype py_exc = SystemExit int | Exception

text \<open>The files written, each with the sequence inserted into the output part.\<close>

type_synonym files = "(string \<times> (rat \<times> element) list) list"

fun is_time_signature :: "rat \<times> element \<Rightarrow> bool" where
  "is_time_signature (_, TimeSignature _) = True"
| "is_time_signature _ = False"

fun is_key_signature :: "rat \<times> element \<Rightarrow> bool" where
  "is_key_signature (_, KeySignature _) = True"
| "is_key_signature _ = False"

fun is_note_or_rest :: "rat \<times> element \<Rightarrow> bool" where
  "is_note_or_rest (_, NoteOrRest _) = True"
| "is_note_or_rest _ = False"

text \<open>\<^verbatim>\<open>getElementsByClass(c).first()\<close> and the insertion at offset 0 when there is one.\<close>

definition first_at_zero :: "(rat \<times> element \<Rightarrow> bool) \<Rightarrow> part \<Rightarrow> (rat \<times> element) list" where
  "first_at_zero c p = (case find c (elements p) of None \<Rightarrow> [] | Some (_, e) \<Rightarrow> [(0, e)])"

text \<open>
  \<^verbatim>\<open>create_lead_sheet\<close>: the exception it ends with, if any, and the files written. A part
  found on channel 1 holds its instrument, so it is not an empty stream and
  \<^verbatim>\<open>not melody_part\<close> holds only when no part was found. Printing is left out here.
\<close>

definition create_lead_sheet ::
  "'s env \<Rightarrow> string \<Rightarrow> string \<Rightarrow> string \<Rightarrow> py_exc option \<times> files" where
  "create_lead_sheet env chord_midi_path melody_midi_path output_xml_path =
    (case (MidiFile env melody_midi_path, converter_parse env melody_midi_path) of
       (Some melody_mf, Some melody_score) \<Rightarrow>
         (case partitionByInstrument env melody_score of
            None \<Rightarrow> (Some Exception, [])
          | Some parts \<Rightarrow>
              (case find (\<lambda>p. midiChannel p = Some 1) parts of
                 None \<Rightarrow> (Some (SystemExit 1), [])
               | Some melody_part \<Rightarrow>
                   (let ticks_per_quarter = ticks_per_beat melody_mf;
                        extracted_chords =
                          snd (parse_chords_from_midi (MidiFile env) (ChordSymbol_ok env)
                                 chord_midi_path ticks_per_quarter False);
                        output_part =
                          first_at_zero is_time_signature melody_part @
                          first_at_zero is_key_signature melody_part @
                          map (\<lambda>cs. (offset cs, Harmony (figure cs))) extracted_chords @
                          filter is_note_or_rest (elements melody_part)
                    in if write_ok env output_xml_path
                       then (None, [(output_xml_path, output_part)])
                       else (Some Exception, []))))
     | _ \<Rightarrow> (Some (SystemExit 1), []))"

text \<open>
  \<^verbatim>\<open>check_chords_in_file\<close>: it writes no file; the result is the exception it ends with.
\<close>

definition check_chords_in_file :: "'s env \<Rightarrow> string \<Rightarrow> py_exc option" where
  "check_chords_in_file env file_path =
    (if \<not> path_exists env file_path then Some (SystemExit 1)
     else (case MidiFile env file_path of
             None \<Rightarrow> Some (SystemExit 1)
           | Some mf \<Rightarrow> None))"


record args =
  check_chords :: "string option"
  chord_file :: "string option"
  melody_file :: "string option"
  output_file :: "string option"

text \<open>
  \<^verbatim>\<open>main\<close> after the arguments are parsed: the exit code of the process and the files
  written. \<^verbatim>\<open>SystemExit\<close> is not an \<^verbatim>\<open>Exception\<close>, so the handler of line 261 lets
  it pass; every other exception ends in \<^verbatim>\<open>sys.exit(1)\<close> there.
\<close>

definition main :: "'s env \<Rightarrow> args \<Rightarrow> int \<times> files" where
  "main env a =
    (case check_chords a of
       Some p \<Rightarrow>
         (case check_chords_in_file env p of
            Some (SystemExit c) \<Rightarrow> (c, [])
          | Some Exception \<Rightarrow> (1, [])
          | None \<Rightarrow> (0, []))
     | None \<Rightarrow>
         (case (chord_file a, melody_file a, output_file a) of
            (Some c, Some m, Some out) \<Rightarrow>
              (case create_lead_sheet env c m out of
                 (Some (SystemExit code), fs) \<Rightarrow> (code, fs)
               | (Some Exception, fs) \<Rightarrow> (1, fs)
               | (None, fs) \<Rightarrow> (0, fs))
          | _ \<Rightarrow> (1, [])))"

subsection \<open>Example inputs\<close>

text \<open>
  Two XF chord events, for the keys \<open>0x32, 0x00\<close> and \<open>0x26, 0x00\<close> of the table, and a
  file with two chord events 480 ticks apart whose division word reads as \<open>-480\<close>.
\<close>

definition d_chord_event :: "int \<Rightarrow> msg" where
  "d_chord_event t = \<lparr>time = t, body = SequencerSpecific [0x43, 0x7B, 0x01, 0x32, 0x00]\<rparr>"

definition fm_chord_event :: "int \<Rightarrow> msg" where
  "fm_chord_event t = \<lparr>time = t, body = SequencerSpecific [0x43, 0x7B, 0x01, 0x26, 0x7F, 0x00]\<rparr>"

definition descending_file :: midi_file where
  "descending_file = \<lparr>ticks_per_beat = - 480, merged = [d_chord_event 0, d_chord_event 480]\<rparr>"

text \<open>
  A generation run: a melody file with one part on channel 1, a chord file with one chord
  event, and collaborators that all succeed; then the same with a chord file that cannot be
  opened, with a melody that the structural parser rejects, and with a writer that fails.
\<close>

definition example_melody_part :: part where
  "example_melody_part =
     \<lparr>midiChannel = Some 1, elements = [(0, TimeSignature ''4/4''), (0, NoteOrRest ''C4'')]\<rparr>"

definition example_env :: "unit env" where
  "example_env =
     \<lparr>MidiFile = (\<lambda>p. if p = ''melody.mid'' then Some \<lparr>ticks_per_beat = 480, merged = []\<rparr>
                    else if p = ''chords.mid''
                    then Some \<lparr>ticks_per_beat = 480, merged = [d_chord_event 0]\<rparr>
                    else None),
      ChordSymbol_ok = (\<lambda>s. True),
      converter_parse = (\<lambda>p. if p = ''melody.mid'' then Some () else None),
      partitionByInstrument = (\<lambda>s. Some [example_melody_part]),
      path_exists = (\<lambda>p. p = ''melody.mid'' \<or> p = ''chords.mid''),
      write_ok = (\<lambda>p. True)\<rparr>"

definition missing_chord_file_env :: "unit env" where
  "missing_chord_file_env =
     example_env\<lparr>MidiFile := (\<lambda>p. if p = ''melody.mid''
                                    then Some \<lparr>ticks_per_beat = 480, merged = []\<rparr> else None)\<rparr>"

definition unparsable_melody_env :: "unit env" where
  "unparsable_melody_env = example_env\<lparr>converter_parse := (\<lambda>p. None)\<rparr>"

definition failing_write_env :: "unit env" where
  "failing_write_env = example_env\<lparr>write_ok := (\<lambda>p. False)\<rparr>"

definition generation_args :: args where
  "generation_args =
     \<lparr>check_chords = None, chord_file = Some ''chords.mid'',
      melody_file = Some ''melody.mid'', output_file = Some ''out/sheet.xml''\<rparr>"


section \<open>Properties\<close>

subsection \<open>The table and the XF decoder\<close>

lemma xf_chord_table_distinct: "distinct (map fst xf_chord_table)"
  by (simp add: xf_chord_table_def)

lemma xf_chord_map_Nil: "xf_chord_map [] = None"
  by (simp add: xf_chord_map_def xf_chord_table_def)

lemma xf_chord_map_nonempty: "xf_chord_map k = Some n \<Longrightarrow> n \<noteq> []"
  unfolding xf_chord_map_def
  by (drule map_of_SomeD) (auto simp: xf_chord_table_def)

lemma xf_meta_event_chord:
  assumes "data ! 2 = XF_CHORD_ID"
  shows "snd (xf_meta_event dbg tick data) =
           xf_chord_map (filter (\<lambda>b. b \<noteq> 0x7F) (drop 3 data))"
  using assms by (simp add: xf_meta_event_def Let_def xf_chord_map_Nil split: option.splits)

lemma xf_meta_event_other:
  assumes "data ! 2 \<noteq> XF_CHORD_ID"
  shows "snd (xf_meta_event dbg tick data) = None"
  using assms by (simp add: xf_meta_event_def Let_def)

lemma current_chord_sysex:
  "snd (current_chord v dbg tick \<lparr>time = t, body = SequencerSpecific data\<rparr>) =
     (if length data > 2 \<and> take 2 data = XF_META_HEADER \<and> data ! 2 = XF_CHORD_ID
      then xf_chord_map (filter (\<lambda>b. b \<noteq> 0x7F) (drop 3 data)) else None)"
  by (simp add: current_chord_def xf_meta_event_chord xf_meta_event_other)

lemma current_chord_xf_chord_event:
  "snd (current_chord v dbg tick
          \<lparr>time = t, body = SequencerSpecific ([0x43, 0x7B, 0x01] @ payload)\<rparr>) =
     xf_chord_map (filter (\<lambda>b. b \<noteq> 0x7F) payload)"
  by (simp add: current_chord_sysex XF_META_HEADER_def XF_CHORD_ID_def)

text \<open>
  C1. For every key \<open>k\<close> of the chord table, a sequencer-specific event whose data is the
  header \<open>0x43, 0x7B\<close>, the chord event type \<open>0x01\<close> and a payload that is \<open>k\<close> once
  the bytes \<open>0x7F\<close> are removed, decodes to the name the table gives for \<open>k\<close>. The lookup
  is sensitive to the arity: the 2-byte key \<open>0x23, 0x13\<close> and the 3-byte key
  \<open>0x23, 0x13, 0x27\<close> are two entries with two names.
\<close>

theorem xf_table_key_decodes_to_its_name:
  assumes "xf_chord_map k = Some name"
    and "filter (\<lambda>b. b \<noteq> 0x7F) payload = k"
  shows "snd (current_chord v dbg tick
            \<lparr>time = t, body = SequencerSpecific ([0x43, 0x7B, 0x01] @ payload)\<rparr>) = Some name
         \<and> xf_chord_map [0x23, 0x13] = Some ''D#add9''
         \<and> xf_chord_map [0x23, 0x13, 0x27] = Some ''D#add9/F#''"
proof -
  have a: "snd (current_chord v dbg tick
            \<lparr>time = t, body = SequencerSpecific ([0x43, 0x7B, 0x01] @ payload)\<rparr>) = Some name"
    by (simp only: current_chord_xf_chord_event assms)
  have b: "xf_chord_map [0x23, 0x13] = Some ''D#add9''"
    by (simp add: xf_chord_map_def xf_chord_table_def)
  have c: "xf_chord_map [0x23, 0x13, 0x27] = Some ''D#add9/F#''"
    by (simp add: xf_chord_map_def xf_chord_table_def)
  from a b c show ?thesis by blast
qed

theorem xf_table_key_decodes_to_its_name_witness:
  "xf_chord_map [0x32, 0x00] = Some ''D''
   \<and> filter (\<lambda>b. b \<noteq> 0x7F) [0x32, 0x7F, 0x00, 0x7F] = [0x32, 0x00::nat]
   \<and> snd (current_chord (\<lambda>s. True) False 0
        \<lparr>time = 0, body = SequencerSpecific [0x43, 0x7B, 0x01, 0x32, 0x7F, 0x00, 0x7F]\<rparr>)
       = Some ''D''"
proof -
  have k: "xf_chord_map [0x32, 0x00] = Some ''D''"
    by (simp add: xf_chord_map_def xf_chord_table_def)
  have f: "filter (\<lambda>b. b \<noteq> 0x7F) [0x32, 0x7F, 0x00, 0x7F] = [0x32, 0x00::nat]"
    by simp
  from xf_table_key_decodes_to_its_name [OF k f, of "\<lambda>s. True" False 0 0] k f
  show ?thesis by simp
qed

subsection \<open>One iteration\<close>

lemma scan_msg_ticks [simp]:
  "absolute_time_ticks (scan_msg v tpq dbg st m) = absolute_time_ticks st + time m"
  by (simp add: scan_msg_def Let_def)

lemma scan_msg_chords:
  "chords (scan_msg v tpq dbg st m) =
     chords st @ fst (append_chord v tpq (absolute_time_ticks st + time m)
                        (snd (current_chord v dbg (absolute_time_ticks st + time m) m)))"
  by (simp add: scan_msg_def Let_def)

lemma scan_msg_console:
  "console (scan_msg v tpq dbg st m) =
     console st @ fst (current_chord v dbg (absolute_time_ticks st + time m) m) @
       snd (append_chord v tpq (absolute_time_ticks st + time m)
              (snd (current_chord v dbg (absolute_time_ticks st + time m) m)))"
  by (simp add: scan_msg_def Let_def)

lemma append_chord_None [simp]: "append_chord v tpq tick None = ([], [])"
  by (simp add: append_chord_def)

lemma re_search_chord_pattern_Nil: "re_search chord_pattern [] = None"
  by (simp add: re_search_def chord_pattern_def chord_root_def)

text \<open>
  C2. A chord event whose payload is empty once the bytes \<open>0x7F\<close> are removed, or is
  a key the table does not have (of any length), yields no chord: the iteration appends
  nothing. The decoder has no failing branch: on every sequencer-specific message the
  result is no chord or a name of the table.
\<close>

theorem xf_empty_or_unknown_key_yields_no_chord:
  assumes "filter (\<lambda>b. b \<noteq> 0x7F) payload = [] \<or>
           xf_chord_map (filter (\<lambda>b. b \<noteq> 0x7F) payload) = None"
  shows "snd (current_chord v dbg tick
            \<lparr>time = t, body = SequencerSpecific ([0x43, 0x7B, 0x01] @ payload)\<rparr>) = None
         \<and> chords (scan_msg v tpq dbg st
              \<lparr>time = t, body = SequencerSpecific ([0x43, 0x7B, 0x01] @ payload)\<rparr>) = chords st
         \<and> (\<forall>d. snd (current_chord v dbg tick \<lparr>time = t, body = SequencerSpecific d\<rparr>) = None
               \<or> snd (current_chord v dbg tick \<lparr>time = t, body = SequencerSpecific d\<rparr>)
                    \<in> Some ` ran xf_chord_map)"
proof -
  let ?m = "\<lparr>time = t, body = SequencerSpecific ([0x43, 0x7B, 0x01] @ payload)\<rparr>"
  have none: "xf_chord_map (filter (\<lambda>b. b \<noteq> 0x7F) payload) = None"
    using assms xf_chord_map_Nil by auto
  have a: "\<And>tick. snd (current_chord v dbg tick ?m) = None"
    by (simp only: current_chord_xf_chord_event none)
  have b: "chords (scan_msg v tpq dbg st ?m) = chords st"
    by (simp only: scan_msg_chords a append_chord_None fst_conv append_Nil2)
  have c: "snd (current_chord v dbg tick \<lparr>time = t, body = SequencerSpecific d\<rparr>) = None
         \<or> snd (current_chord v dbg tick \<lparr>time = t, body = SequencerSpecific d\<rparr>)
              \<in> Some ` ran xf_chord_map" for d
    unfolding current_chord_sysex
    by (cases "xf_chord_map (filter (\<lambda>b. b \<noteq> 0x7F) (drop 3 d))") (auto simp: ran_def)
  from a b c show ?thesis by blast
qed

theorem xf_empty_or_unknown_key_yields_no_chord_witness:
  "filter (\<lambda>b. b \<noteq> 0x7F) [0x7F, 0x7F::nat] = []
   \<and> snd (current_chord (\<lambda>s. True) False 0
        \<lparr>time = 0, body = SequencerSpecific [0x43, 0x7B, 0x01, 0x7F, 0x7F]\<rparr>) = None
   \<and> xf_chord_map (filter (\<lambda>b. b \<noteq> 0x7F) [0x01, 0x7F, 0x02, 0x03, 0x04]) = None
   \<and> snd (current_chord (\<lambda>s. True) False 0
        \<lparr>time = 0, body = SequencerSpecific [0x43, 0x7B, 0x01, 0x01, 0x7F, 0x02, 0x03, 0x04]\<rparr>)
       = None"
proof -
  have e: "filter (\<lambda>b. b \<noteq> 0x7F) [0x7F, 0x7F::nat] = []" by simp
  have u: "xf_chord_map (filter (\<lambda>b. b \<noteq> 0x7F) [0x01, 0x7F, 0x02, 0x03, 0x04]) = None"
    by (simp add: xf_chord_map_def xf_chord_table_def)
  from xf_empty_or_unknown_key_yields_no_chord [OF disjI1 [OF e], of "\<lambda>s. True" False 0 0]
       xf_empty_or_unknown_key_yields_no_chord [OF disjI2 [OF u], of "\<lambda>s. True" False 0 0]
       e u
  show ?thesis by simp
qed

subsection \<open>The text recognizer\<close>

lemma text_meta_event_match:
  assumes "re_search chord_pattern (strip text) = Some m"
    and "group1 (strip text) m = Some parsed"
  shows "text_meta_event v dbg tick kind text =
     (if v parsed then (if dbg then [DebugText tick kind (strip text)] else [], Some parsed)
      else (if dbg then [DebugText tick kind (strip text), DebugTextNotChord parsed] else [], None))"
proof -
  have "strip text \<noteq> []" using assms(1) re_search_chord_pattern_Nil by auto
  then show ?thesis using assms by (simp add: text_meta_event_def Let_def)
qed

text \<open>
  C7. A text event whose stripped content matches the pattern, with a matched substring
  that the chord-symbol constructor rejects, yields no chord. The rejection stays inside the
  recognizer: nothing is appended, and the only output is the debug trace in debug mode.
\<close>

theorem text_rejected_by_validator_yields_no_chord:
  assumes "re_search chord_pattern (strip text) = Some m"
    and "group1 (strip text) m = Some parsed"
    and "\<not> v parsed"
  shows "snd (current_chord v dbg tick \<lparr>time = t, body = MetaText kind text\<rparr>) = None
       \<and> chords (scan_msg v tpq dbg st \<lparr>time = t, body = MetaText kind text\<rparr>) = chords st
       \<and> console (scan_msg v tpq dbg st \<lparr>time = t, body = MetaText kind text\<rparr>) =
           console st @ (if dbg then [DebugText (absolute_time_ticks st + t) kind (strip text),
                                      DebugTextNotChord parsed] else [])"
proof -
  let ?m = "\<lparr>time = t, body = MetaText kind text\<rparr>"
  have cc: "current_chord v dbg tick ?m =
      (if dbg then [DebugText tick kind (strip text), DebugTextNotChord parsed] else [], None)" for tick
    using text_meta_event_match [OF assms(1,2), of v dbg tick kind] assms(3)
    by (simp add: current_chord_def)
  have a: "snd (current_chord v dbg tick ?m) = None" by (simp add: cc)
  have b: "chords (scan_msg v tpq dbg st ?m) = chords st"
    by (simp add: scan_msg_chords cc)
  have c: "console (scan_msg v tpq dbg st ?m) =
           console st @ (if dbg then [DebugText (absolute_time_ticks st + t) kind (strip text),
                                      DebugTextNotChord parsed] else [])"
    by (simp add: scan_msg_console cc)
  from a b c show ?thesis by blast
qed

lemma gm7_search: "re_search chord_pattern ''Gm7 riff'' = Some (3, Some (0, 3))"
  by code_simp

lemma gm7_strip: "strip ''Gm7 riff'' = ''Gm7 riff''"
  by code_simp

theorem text_rejected_by_validator_yields_no_chord_witness:
  "re_search chord_pattern (strip ''Gm7 riff'') = Some (3, Some (0, 3))
   \<and> group1 (strip ''Gm7 riff'') (3, Some (0, 3)) = Some ''Gm7''
   \<and> snd (current_chord (\<lambda>s. False) False 0 \<lparr>time = 0, body = MetaText Text ''Gm7 riff''\<rparr>) = None"
proof -
  have s: "re_search chord_pattern (strip ''Gm7 riff'') = Some (3, Some (0, 3))"
    by (simp only: gm7_strip gm7_search)
  have g: "group1 (strip ''Gm7 riff'') (3, Some (0, 3)) = Some ''Gm7''"
    by (simp add: gm7_strip)
  have n: "\<not> (\<lambda>s::string. False) ''Gm7''" by simp
  from text_rejected_by_validator_yields_no_chord [OF s g n, of False 0 0 Text] s g
  show ?thesis by blast
qed

subsection \<open>The loop and its tick counter\<close>

lemma scan_loop_Nil [simp]: "scan_loop v tpq dbg st [] = st"
  by (simp add: scan_loop_def)

lemma scan_loop_Cons [simp]:
  "scan_loop v tpq dbg st (m # ms) = scan_loop v tpq dbg (scan_msg v tpq dbg st m) ms"
  by (simp add: scan_loop_def)

lemma scan_loop_snoc:
  "scan_loop v tpq dbg st (ms @ [m]) = scan_msg v tpq dbg (scan_loop v tpq dbg st ms) m"
  by (simp add: scan_loop_def)

lemma scan_loop_last_state:
  "scan_loop v tpq dbg st ms = last (st # scan_states v tpq dbg st ms)"
  by (induction ms arbitrary: st) simp_all

lemma scan_loop_ticks:
  "absolute_time_ticks (scan_loop v tpq dbg st ms) = absolute_time_ticks st + sum_list (map time ms)"
  by (induction ms arbitrary: st) simp_all

lemma upt_Suc_shift: "[0..<Suc n] = 0 # map Suc [0..<n]"
  by (simp add: upt_conv_Cons map_Suc_upt del: upt_Suc)

lemma scan_states_ticks:
  "map absolute_time_ticks (scan_states v tpq dbg st ms) =
     map (\<lambda>i. absolute_time_ticks st + sum_list (map time (take (Suc i) ms))) [0..<length ms]"
proof (induction ms arbitrary: st)
  case Nil
  show ?case by simp
next
  case (Cons m ms)
  have "map absolute_time_ticks (scan_states v tpq dbg st (m # ms)) =
        (absolute_time_ticks st + time m) #
          map (\<lambda>i. absolute_time_ticks st + time m + sum_list (map time (take (Suc i) ms)))
            [0..<length ms]"
    by (simp add: Cons.IH del: upt_Suc)
  also have "\<dots> = map (\<lambda>i. absolute_time_ticks st + sum_list (map time (take (Suc i) (m # ms))))
                     (0 # map Suc [0..<length ms])"
    by (simp add: comp_def add.assoc del: upt_Suc)
  also have "\<dots> = map (\<lambda>i. absolute_time_ticks st + sum_list (map time (take (Suc i) (m # ms))))
                     [0..<length (m # ms)]"
    by (simp only: length_Cons upt_Suc_shift)
  finally show ?case .
qed

lemma scan_states_ticks_lower:
  "list_all (\<lambda>m. 0 \<le> time m) ms \<Longrightarrow> s \<in> set (scan_states v tpq dbg st ms) \<Longrightarrow>
     absolute_time_ticks st \<le> absolute_time_ticks s"
proof (induction ms arbitrary: st)
  case Nil
  then show ?case by simp
next
  case (Cons m ms)
  then show ?case by fastforce
qed

lemma scan_states_ticks_sorted:
  "list_all (\<lambda>m. 0 \<le> time m) ms \<Longrightarrow>
     sorted (map absolute_time_ticks (scan_states v tpq dbg st ms))"
proof (induction ms arbitrary: st)
  case Nil
  show ?case by simp
next
  case (Cons m ms)
  then show ?case by (auto dest: scan_states_ticks_lower)
qed

text \<open>
  C3. The absolute tick position of each message of the merged stream is the sum of the
  delta times up to and including it, in emission order; the positions never decrease when
  no delta time is negative; the deltas 0, 10, 0, 5 give the positions 0, 10, 10, 15. The
  final state of the loop is the last state of the trace.
\<close>

theorem absolute_ticks_are_prefix_sums:
  "map absolute_time_ticks (scan_states v tpq dbg st ms) =
     map (\<lambda>i. absolute_time_ticks st + sum_list (map time (take (Suc i) ms))) [0..<length ms]
   \<and> scan_loop v tpq dbg st ms = last (st # scan_states v tpq dbg st ms)
   \<and> (list_all (\<lambda>m. 0 \<le> time m) ms \<longrightarrow>
        sorted (map absolute_time_ticks (scan_states v tpq dbg st ms)))
   \<and> (absolute_time_ticks st = 0 \<and> map time ms = [0, 10, 0, 5] \<longrightarrow>
        map absolute_time_ticks (scan_states v tpq dbg st ms) = [0, 10, 10, 15])"
proof -
  have d: "map absolute_time_ticks (scan_states v tpq dbg st ms) = [0, 10, 10, 15]"
    if z: "absolute_time_ticks st = 0" and t: "map time ms = [0, 10, 0, 5]"
  proof -
    have "length (map time ms) = 4" by (simp only: t) simp
    then have len: "length ms = 4" by simp
    have idx: "[0..<4] = [0, 1, 2, Suc 2]" by (simp add: upt_rec)
    show ?thesis
      unfolding scan_states_ticks len idx
      by (simp add: take_map [symmetric] t z)
  qed
  show ?thesis
  proof (intro conjI impI)
    show "map absolute_time_ticks (scan_states v tpq dbg st ms) =
       map (\<lambda>i. absolute_time_ticks st + sum_list (map time (take (Suc i) ms))) [0..<length ms]"
      by (rule scan_states_ticks)
    show "scan_loop v tpq dbg st ms = last (st # scan_states v tpq dbg st ms)"
      by (rule scan_loop_last_state)
    show "sorted (map absolute_time_ticks (scan_states v tpq dbg st ms))"
      if "list_all (\<lambda>m. 0 \<le> time m) ms"
      using that by (rule scan_states_ticks_sorted)
    show "map absolute_time_ticks (scan_states v tpq dbg st ms) = [0, 10, 10, 15]"
      if "absolute_time_ticks st = 0 \<and> map time ms = [0, 10, 0, 5]"
    proof -
      from that have a: "absolute_time_ticks st = 0" and b: "map time ms = [0, 10, 0, 5]"
        by simp_all
      from d [OF a b] show ?thesis .
    qed
  qed
qed

theorem absolute_ticks_are_prefix_sums_witness:
  "list_all (\<lambda>m. 0 \<le> time m)
     [\<lparr>time = 0, body = OtherMsg\<rparr>, \<lparr>time = 10, body = TrackName ''t''\<rparr>,
      \<lparr>time = 0, body = OtherMsg\<rparr>, \<lparr>time = 5, body = OtherMsg\<rparr>]
   \<and> map absolute_time_ticks
       (scan_states (\<lambda>s. True) 480 False \<lparr>absolute_time_ticks = 0, chords = [], console = []\<rparr>
         [\<lparr>time = 0, body = OtherMsg\<rparr>, \<lparr>time = 10, body = TrackName ''t''\<rparr>,
          \<lparr>time = 0, body = OtherMsg\<rparr>, \<lparr>time = 5, body = OtherMsg\<rparr>]) = [0, 10, 10, 15]
   \<and> sorted (map absolute_time_ticks
       (scan_states (\<lambda>s. True) 480 False \<lparr>absolute_time_ticks = 0, chords = [], console = []\<rparr>
         [\<lparr>time = 0, body = OtherMsg\<rparr>, \<lparr>time = 10, body = TrackName ''t''\<rparr>,
          \<lparr>time = 0, body = OtherMsg\<rparr>, \<lparr>time = 5, body = OtherMsg\<rparr>]))"
  using absolute_ticks_are_prefix_sums [of "\<lambda>s. True" 480 False
      "\<lparr>absolute_time_ticks = 0, chords = [], console = []\<rparr>"
      "[\<lparr>time = 0, body = OtherMsg\<rparr>, \<lparr>time = 10, body = TrackName ''t''\<rparr>,
        \<lparr>time = 0, body = OtherMsg\<rparr>, \<lparr>time = 5, body = OtherMsg\<rparr>]"]
  by simp

subsection \<open>The returned chord list\<close>

lemma append_chord_valid:
  "list_all (\<lambda>cs. v (figure cs)) (fst (append_chord v tpq tick x))"
  by (simp add: append_chord_def split: option.splits)

lemma scan_loop_chords_valid:
  "list_all (\<lambda>cs. v (figure cs)) (chords st) \<Longrightarrow>
     list_all (\<lambda>cs. v (figure cs)) (chords (scan_loop v tpq dbg st ms))"
proof (induction ms arbitrary: st)
  case Nil
  then show ?case by simp
next
  case (Cons m ms)
  have "list_all (\<lambda>cs. v (figure cs)) (chords (scan_msg v tpq dbg st m))"
    using Cons.prems by (simp add: scan_msg_chords append_chord_valid)
  then show ?case by (simp add: Cons.IH)
qed

lemma parse_chords_valid:
  "list_all (\<lambda>cs. v (figure cs)) (snd (parse_chords_from_midi mido v path tpq dbg))"
  by (simp add: parse_chords_from_midi_def Let_def scan_loop_chords_valid split: option.splits)

text \<open>
  C10. Every chord symbol of the returned list has a name that the chord-symbol constructor
  accepts, whichever recognizer found it. A name from the XF table that the constructor
  rejects is dropped: the iteration appends nothing and prints the warning of line 129.
\<close>

theorem output_chords_are_validator_accepted:
  "(\<forall>cs \<in> set (snd (parse_chords_from_midi mido v path tpq dbg)). v (figure cs))
   \<and> (xf_chord_map (filter (\<lambda>b. b \<noteq> 0x7F) payload) = Some name \<and> \<not> v name \<longrightarrow>
        chords (scan_msg v tpq dbg st
          \<lparr>time = t, body = SequencerSpecific ([0x43, 0x7B, 0x01] @ payload)\<rparr>) = chords st
        \<and> console (scan_msg v tpq dbg st
            \<lparr>time = t, body = SequencerSpecific ([0x43, 0x7B, 0x01] @ payload)\<rparr>) =
          console st @
          fst (current_chord v dbg (absolute_time_ticks st + t)
                 \<lparr>time = t, body = SequencerSpecific ([0x43, 0x7B, 0x01] @ payload)\<rparr>) @
          [ChordCreateWarning name])"
proof (intro conjI impI)
  show "\<forall>cs \<in> set (snd (parse_chords_from_midi mido v path tpq dbg)). v (figure cs)"
    using parse_chords_valid [of v mido path tpq dbg] by (simp add: list_all_iff)
next
  let ?m = "\<lparr>time = t, body = SequencerSpecific ([0x43, 0x7B, 0x01] @ payload)\<rparr>"
  assume h: "xf_chord_map (filter (\<lambda>b. b \<noteq> 0x7F) payload) = Some name \<and> \<not> v name"
  then have k: "xf_chord_map (filter (\<lambda>b. b \<noteq> 0x7F) payload) = Some name" and nv: "\<not> v name"
    by simp_all
  have ne: "name \<noteq> []" using k by (rule xf_chord_map_nonempty)
  have cc: "snd (current_chord v dbg tick ?m) = Some name" for tick
    by (simp only: current_chord_xf_chord_event k)
  have ac: "append_chord v tpq tick (Some name) = ([], [ChordCreateWarning name])" for tick
    using ne nv by (simp add: append_chord_def)
  show "chords (scan_msg v tpq dbg st ?m) = chords st"
    by (simp only: scan_msg_chords cc ac fst_conv append_Nil2 msg.simps)
  show "console (scan_msg v tpq dbg st ?m) =
          console st @ fst (current_chord v dbg (absolute_time_ticks st + t) ?m) @
          [ChordCreateWarning name]"
    by (simp only: scan_msg_console cc ac snd_conv msg.simps)
qed

lemma d_chord_event_chord: "snd (current_chord v dbg tick (d_chord_event t)) = Some ''D''"
  by (simp add: d_chord_event_def current_chord_sysex XF_META_HEADER_def XF_CHORD_ID_def
      xf_chord_map_def xf_chord_table_def)

lemma fm_chord_event_chord: "snd (current_chord v dbg tick (fm_chord_event t)) = Some ''Fm''"
  by (simp add: fm_chord_event_def current_chord_sysex XF_META_HEADER_def XF_CHORD_ID_def
      xf_chord_map_def xf_chord_table_def)

lemma d_chord_event_time [simp]: "time (d_chord_event t) = t"
  by (simp add: d_chord_event_def)

lemma fm_chord_event_time [simp]: "time (fm_chord_event t) = t"
  by (simp add: fm_chord_event_def)

theorem output_chords_are_validator_accepted_witness:
  "snd (parse_chords_from_midi
          (\<lambda>p. Some \<lparr>ticks_per_beat = 480, merged = [d_chord_event 0, fm_chord_event 480]\<rparr>)
          (\<lambda>s. s = ''D'') ''chords.mid'' 480 False) = [\<lparr>figure = ''D'', offset = 0\<rparr>]
   \<and> list_all (\<lambda>cs. figure cs = ''D'')
       (snd (parse_chords_from_midi
          (\<lambda>p. Some \<lparr>ticks_per_beat = 480, merged = [d_chord_event 0, fm_chord_event 480]\<rparr>)
          (\<lambda>s. s = ''D'') ''chords.mid'' 480 False))"
  using output_chords_are_validator_accepted
    [of "\<lambda>p. Some \<lparr>ticks_per_beat = 480, merged = [d_chord_event 0, fm_chord_event 480]\<rparr>"
        "\<lambda>s. s = ''D''" "''chords.mid''" 480 False "[]" "''x''" "undefined" 0]
  by (simp add: parse_chords_from_midi_def Let_def scan_msg_chords d_chord_event_chord
      fm_chord_event_chord append_chord_def)


lemma append_chord_eq:
  "fst (append_chord v tpq tick x) =
     (case x of None \<Rightarrow> []
      | Some n \<Rightarrow> if n \<noteq> [] \<and> v n \<and> tpq \<noteq> 0
                  then [\<lparr>figure = n, offset = of_int tick / of_int tpq\<rparr>] else [])"
  by (simp add: append_chord_def split: option.splits)

lemma scan_msg_console_prefix:
  "scan_msg v tpq dbg (st\<lparr>console := c @ console st\<rparr>) m =
     (scan_msg v tpq dbg st m)\<lparr>console := c @ console (scan_msg v tpq dbg st m)\<rparr>"
  by (simp add: scan_msg_def Let_def)

lemma scan_loop_console_prefix:
  "scan_loop v tpq dbg (st\<lparr>console := c @ console st\<rparr>) ms =
     (scan_loop v tpq dbg st ms)\<lparr>console := c @ console (scan_loop v tpq dbg st ms)\<rparr>"
  by (induction ms arbitrary: st) (simp_all add: scan_msg_console_prefix)

lemma scan_loop_from_warning:
  "scan_loop v tpq dbg \<lparr>absolute_time_ticks = 0, chords = [], console = w\<rparr> ms =
     (scan_loop v tpq dbg \<lparr>absolute_time_ticks = 0, chords = [], console = []\<rparr> ms)
       \<lparr>console := w @ console (scan_loop v tpq dbg
                     \<lparr>absolute_time_ticks = 0, chords = [], console = []\<rparr> ms)\<rparr>"
  using scan_loop_console_prefix
    [where v = v and tpq = tpq and dbg = dbg and c = w and ms = ms
       and st = "\<lparr>absolute_time_ticks = 0, chords = [], console = []\<rparr>"]
  by simp

lemma parse_chords_Some:
  assumes "mido path = Some mf"
  shows "parse_chords_from_midi mido v path tpq dbg =
    (let st = scan_loop v tpq dbg \<lparr>absolute_time_ticks = 0, chords = [], console = []\<rparr> (merged mf)
     in ((if ticks_per_beat mf \<noteq> tpq then [TpqMismatchWarning tpq (ticks_per_beat mf)] else [])
          @ console st @ [ScanSummary (length (chords st))], chords st))"
  unfolding parse_chords_from_midi_def
  by (subst scan_loop_from_warning) (simp add: assms Let_def)



lemma d_chord_event_current:
  "current_chord v False tick (d_chord_event t) = ([], Some ''D'')"
  by (simp add: d_chord_event_def current_chord_def xf_meta_event_def XF_META_HEADER_def
      XF_CHORD_ID_def Let_def xf_chord_map_def xf_chord_table_def)



lemma scan_msg_sorted:
  assumes "0 < tpq" and "0 \<le> time m"
    and "sorted (map offset (chords st))"
    and "list_all (\<lambda>cs. offset cs \<le> of_int (absolute_time_ticks st) / of_int tpq) (chords st)"
  shows "sorted (map offset (chords (scan_msg v tpq dbg st m)))
       \<and> list_all (\<lambda>cs. offset cs \<le> of_int (absolute_time_ticks (scan_msg v tpq dbg st m))
                                      / of_int tpq)
           (chords (scan_msg v tpq dbg st m))"
proof -
  let ?t = "absolute_time_ticks st + time m"
  have le: "(of_int (absolute_time_ticks st) :: rat) / of_int tpq \<le> of_int ?t / of_int tpq"
    using assms(1,2) by (intro divide_right_mono) simp_all
  have old: "list_all (\<lambda>cs. offset cs \<le> of_int ?t / of_int tpq) (chords st)"
    using assms(4) le by (auto simp: list_all_iff)
  have new: "list_all (\<lambda>cs. offset cs = of_int ?t / of_int tpq)
               (fst (append_chord v tpq ?t x))" for x
    by (simp add: append_chord_eq split: option.splits)
  have new_le: "list_all (\<lambda>cs. offset cs \<le> of_int ?t / of_int tpq)
               (fst (append_chord v tpq ?t x))" for x
    using new [of x] by (auto simp: list_all_iff)
  have new_sorted: "sorted (map offset (fst (append_chord v tpq ?t x)))" for x
    by (simp add: append_chord_eq split: option.splits)
  have cross: "\<forall>a \<in> set (chords st). \<forall>b \<in> set (fst (append_chord v tpq ?t x)).
                 offset a \<le> offset b" for x
    using old new [of x] by (auto simp: list_all_iff)
  show ?thesis
    using assms(3) old new_le new_sorted cross
    by (simp add: scan_msg_chords sorted_append)
qed

lemma scan_loop_sorted:
  assumes "0 < tpq"
  shows "list_all (\<lambda>m. 0 \<le> time m) ms \<Longrightarrow> sorted (map offset (chords st)) \<Longrightarrow>
     list_all (\<lambda>cs. offset cs \<le> of_int (absolute_time_ticks st) / of_int tpq) (chords st) \<Longrightarrow>
     sorted (map offset (chords (scan_loop v tpq dbg st ms)))"
proof (induction ms arbitrary: st)
  case Nil
  then show ?case by simp
next
  case (Cons m ms)
  from Cons.prems(1) have m: "0 \<le> time m" and ms: "list_all (\<lambda>m. 0 \<le> time m) ms"
    by simp_all
  from scan_msg_sorted [OF assms m Cons.prems(2,3), of v dbg]
  have "sorted (map offset (chords (scan_loop v tpq dbg (scan_msg v tpq dbg st m) ms)))"
    by (intro Cons.IH [OF ms]) simp_all
  then show ?case by simp
qed

text \<open>
  C8, amended. When the governing resolution is positive and no delta time of the merged
  stream is negative, the offsets of the returned list, in the order of appending, never
  decrease.
\<close>

theorem chord_offsets_ascend_for_positive_resolution:
  assumes "0 < tpq" and "mido path = Some mf"
    and "list_all (\<lambda>m. 0 \<le> time m) (merged mf)"
  shows "sorted (map offset (snd (parse_chords_from_midi mido v path tpq dbg)))"
proof -
  have "sorted (map offset (chords (scan_loop v tpq dbg
          \<lparr>absolute_time_ticks = 0, chords = [], console = []\<rparr> (merged mf))))"
    by (rule scan_loop_sorted [OF assms(1,3)]) simp_all
  then show ?thesis
    by (simp add: parse_chords_Some [where mido = mido and path = path and mf = mf, OF assms(2)]
        Let_def)
qed

theorem chord_offsets_ascend_for_positive_resolution_witness:
  "list_all (\<lambda>m. 0 \<le> time m) [d_chord_event 0, d_chord_event 480]
   \<and> sorted (map offset (snd (parse_chords_from_midi
       (\<lambda>p. Some \<lparr>ticks_per_beat = 480, merged = [d_chord_event 0, d_chord_event 480]\<rparr>)
       (\<lambda>s. True) ''chords.mid'' 480 False)))"
proof -
  have q: "(0::int) < 480" by simp
  have o: "(\<lambda>p::string. Some \<lparr>ticks_per_beat = 480,
              merged = [d_chord_event 0, d_chord_event 480]\<rparr>) ''chords.mid''
          = Some \<lparr>ticks_per_beat = 480, merged = [d_chord_event 0, d_chord_event 480]\<rparr>"
    by simp
  have l: "list_all (\<lambda>m. 0 \<le> time m)
     (merged \<lparr>ticks_per_beat = 480, merged = [d_chord_event 0, d_chord_event 480]\<rparr>)"
    by simp
  from chord_offsets_ascend_for_positive_resolution
         [OF q o l, where v = "\<lambda>s. True" and dbg = False] l
  show ?thesis by simp
qed

text \<open>
  C8 as stated fails for a negative resolution: with \<open>-480\<close> ticks per quarter note and
  non-negative delta times, the two chords get the offsets 0 and -1.
\<close>

theorem negative_resolution_offsets_descend:
  "list_all (\<lambda>m. 0 \<le> time m) (merged descending_file)
   \<and> map offset (snd (parse_chords_from_midi (\<lambda>p. Some descending_file) (\<lambda>s. True)
                        ''chords.mid'' (- 480) False)) = [0, - 1]
   \<and> \<not> sorted (map offset (snd (parse_chords_from_midi (\<lambda>p. Some descending_file)
                        (\<lambda>s. True) ''chords.mid'' (- 480) False)))"
proof -
  have e: "map offset (snd (parse_chords_from_midi (\<lambda>p. Some descending_file) (\<lambda>s. True)
                        ''chords.mid'' (- 480) False)) = [0, - 1]"
    by (simp add: parse_chords_from_midi_def Let_def scan_loop_def scan_msg_def
        descending_file_def d_chord_event_current append_chord_def)
  have l: "list_all (\<lambda>m. 0 \<le> time m) (merged descending_file)"
    by (simp add: descending_file_def)
  show ?thesis unfolding e using l by simp
qed

subsection \<open>Generation mode\<close>

lemma main_generation:
  assumes "check_chords a = None" and "chord_file a = Some c" and "melody_file a = Some m"
    and "output_file a = Some out"
  shows "main env a =
    (case create_lead_sheet env c m out of
       (Some (SystemExit code), fs) \<Rightarrow> (code, fs)
     | (Some Exception, fs) \<Rightarrow> (1, fs)
     | (None, fs) \<Rightarrow> (0, fs))"
  using assms by (simp add: main_def)

lemma create_lead_sheet_melody_failure:
  assumes "MidiFile env m = None \<or> converter_parse env m = None \<or>
     (\<exists>sc parts. converter_parse env m = Some sc \<and> partitionByInstrument env sc = Some parts
        \<and> find (\<lambda>p. midiChannel p = Some 1) parts = None)"
  shows "create_lead_sheet env c m out = (Some (SystemExit 1), [])"
  using assms by (auto simp: create_lead_sheet_def split: option.splits)

lemma parse_chords_unopened:
  "mido path = None \<Longrightarrow> parse_chords_from_midi mido v path tpq dbg = ([OpenError], [])"
  by (simp add: parse_chords_from_midi_def)

text \<open>
  C5, amended. In a generation run, when the melody file cannot be opened or parsed, or no
  part of it is on channel 1, \<^verbatim>\<open>create_lead_sheet\<close> ends in \<^verbatim>\<open>sys.exit(1)\<close> and
  no file is written. A chord file that cannot be opened is not fatal: the extraction
  reports the error and returns the empty list.
\<close>

theorem melody_failures_abort_without_output:
  assumes "check_chords a = None" and "chord_file a = Some c" and "melody_file a = Some m"
    and "output_file a = Some out"
    and "MidiFile env m = None \<or> converter_parse env m = None \<or>
     (\<exists>sc parts. converter_parse env m = Some sc \<and> partitionByInstrument env sc = Some parts
        \<and> find (\<lambda>p. midiChannel p = Some 1) parts = None)"
  shows "create_lead_sheet env c m out = (Some (SystemExit 1), [])
       \<and> main env a = (1, [])
       \<and> (MidiFile env c = None \<longrightarrow>
            parse_chords_from_midi (MidiFile env) (ChordSymbol_ok env) c tpq dbg
              = ([OpenError], []))"
proof -
  have a: "create_lead_sheet env c m out = (Some (SystemExit 1), [])"
    using assms(5) by (rule create_lead_sheet_melody_failure)
  have b: "main env a = (1, [])"
    by (simp add: main_generation [OF assms(1-4)] a)
  from a b parse_chords_unopened [of "MidiFile env" c] show ?thesis by blast
qed

theorem melody_failures_abort_without_output_witness:
  "converter_parse unparsable_melody_env ''melody.mid'' = None
   \<and> main unparsable_melody_env generation_args = (1, [])"
proof -
  have h: "MidiFile unparsable_melody_env ''melody.mid'' = None \<or>
     converter_parse unparsable_melody_env ''melody.mid'' = None \<or>
     (\<exists>sc parts. converter_parse unparsable_melody_env ''melody.mid'' = Some sc
        \<and> partitionByInstrument unparsable_melody_env sc = Some parts
        \<and> find (\<lambda>p. midiChannel p = Some 1) parts = None)"
    by (simp add: unparsable_melody_env_def)
  from melody_failures_abort_without_output
    [where a = generation_args and c = "''chords.mid''" and m = "''melody.mid''"
       and out = "''out/sheet.xml''" and env = unparsable_melody_env, OF _ _ _ _ h]
  show ?thesis by (simp add: generation_args_def unparsable_melody_env_def)
qed

text \<open>
  C5 as stated fails for the chord file: when it cannot be opened, the run ends with exit
  code 0 and writes the lead sheet with the melody only.
\<close>

theorem unopened_chord_file_still_writes_output:
  "MidiFile missing_chord_file_env ''chords.mid'' = None
   \<and> main missing_chord_file_env generation_args =
       (0, [(''out/sheet.xml'', [(0, TimeSignature ''4/4''), (0, NoteOrRest ''C4'')])])"
  by (simp add: main_def generation_args_def missing_chord_file_env_def example_env_def
      create_lead_sheet_def parse_chords_from_midi_def example_melody_part_def first_at_zero_def
      Let_def)


lemma create_lead_sheet_unexpected:
  assumes "MidiFile env m = Some mmf" and "converter_parse env m = Some sc"
    and "partitionByInstrument env sc = None \<or>
         (\<exists>parts p. partitionByInstrument env sc = Some parts
            \<and> find (\<lambda>p. midiChannel p = Some 1) parts = Some p \<and> \<not> write_ok env out)"
  shows "create_lead_sheet env c m out = (Some Exception, [])"
  using assms by (auto simp: create_lead_sheet_def Let_def)

text \<open>
  C9, amended. A generation run exits with code 0 when \<^verbatim>\<open>create_lead_sheet\<close>
  completes, with code 1 when the melody cannot be parsed or has no part on channel 1, and
  with the same code 1 for any other failure (the partition or the writer raising): the exit
  code is 0 on completion and 1 otherwise.
\<close>

theorem generation_exit_codes:
  assumes "check_chords a = None" and "chord_file a = Some c" and "melody_file a = Some m"
    and "output_file a = Some out"
  shows "(fst (create_lead_sheet env c m out) = None \<longrightarrow> fst (main env a) = 0)
       \<and> (MidiFile env m = None \<or> converter_parse env m = None \<or>
           (\<exists>sc parts. converter_parse env m = Some sc
              \<and> partitionByInstrument env sc = Some parts
              \<and> find (\<lambda>p. midiChannel p = Some 1) parts = None)
           \<longrightarrow> fst (main env a) = 1)
       \<and> ((\<exists>mmf sc. MidiFile env m = Some mmf \<and> converter_parse env m = Some sc
              \<and> (partitionByInstrument env sc = None \<or>
                  (\<exists>parts p. partitionByInstrument env sc = Some parts
                     \<and> find (\<lambda>p. midiChannel p = Some 1) parts = Some p
                     \<and> \<not> write_ok env out)))
           \<longrightarrow> fst (main env a) = 1)
       \<and> fst (main env a) = (if fst (create_lead_sheet env c m out) = None then 0 else 1)"
proof (intro conjI impI)
  note mg = main_generation [OF assms]
  show "fst (main env a) = 0" if "fst (create_lead_sheet env c m out) = None"
    using that by (cases "create_lead_sheet env c m out") (simp add: mg)
  show "fst (main env a) = 1"
    if "MidiFile env m = None \<or> converter_parse env m = None \<or>
           (\<exists>sc parts. converter_parse env m = Some sc
              \<and> partitionByInstrument env sc = Some parts
              \<and> find (\<lambda>p. midiChannel p = Some 1) parts = None)"
    by (simp add: mg create_lead_sheet_melody_failure [OF that])
  show "fst (main env a) = 1"
    if "\<exists>mmf sc. MidiFile env m = Some mmf \<and> converter_parse env m = Some sc
              \<and> (partitionByInstrument env sc = None \<or>
                  (\<exists>parts p. partitionByInstrument env sc = Some parts
                     \<and> find (\<lambda>p. midiChannel p = Some 1) parts = Some p
                     \<and> \<not> write_ok env out))"
  proof -
    from that obtain mmf sc where "MidiFile env m = Some mmf" "converter_parse env m = Some sc"
      "partitionByInstrument env sc = None \<or>
                  (\<exists>parts p. partitionByInstrument env sc = Some parts
                     \<and> find (\<lambda>p. midiChannel p = Some 1) parts = Some p
                     \<and> \<not> write_ok env out)"
      by blast
    then have "create_lead_sheet env c m out = (Some Exception, [])"
      by (rule create_lead_sheet_unexpected)
    then show ?thesis by (simp add: mg)
  qed
  show "fst (main env a) = (if fst (create_lead_sheet env c m out) = None then 0 else 1)"
  proof (cases "create_lead_sheet env c m out")
    case (Pair e fs)
    have codes: "e = None \<or> e = Some (SystemExit 1) \<or> e = Some Exception"
      using Pair by (auto simp: create_lead_sheet_def Let_def split: option.splits if_splits)
    then show ?thesis using Pair by (auto simp: mg)
  qed
qed

theorem generation_exit_codes_witness:
  "fst (main example_env generation_args) = 0
   \<and> fst (main unparsable_melody_env generation_args) = 1
   \<and> fst (main failing_write_env generation_args) = 1"
proof -
  have g: "check_chords generation_args = None" "chord_file generation_args = Some ''chords.mid''"
    "melody_file generation_args = Some ''melody.mid''"
    "output_file generation_args = Some ''out/sheet.xml''"
    by (simp_all add: generation_args_def)
  have ok: "fst (create_lead_sheet example_env ''chords.mid'' ''melody.mid'' ''out/sheet.xml'')
            = None"
    by (simp add: create_lead_sheet_def example_env_def example_melody_part_def Let_def)
  from generation_exit_codes [OF g, of example_env]
       generation_exit_codes [OF g, of unparsable_melody_env]
       generation_exit_codes [OF g, of failing_write_env]
       ok
  show ?thesis
    by (simp add: unparsable_melody_env_def failing_write_env_def example_env_def
        example_melody_part_def)
qed

text \<open>
  C9 as stated fails: an unparsable melody and a failing writer end in the same exit code.
\<close>

theorem melody_and_other_failures_share_exit_code:
  "converter_parse unparsable_melody_env ''melody.mid'' = None
   \<and> fst (main unparsable_melody_env generation_args) = 1
   \<and> fst (create_lead_sheet failing_write_env ''chords.mid'' ''melody.mid'' ''out/sheet.xml'')
       = Some Exception
   \<and> fst (main failing_write_env generation_args) = 1
   \<and> fst (main unparsable_melody_env generation_args) =
       fst (main failing_write_env generation_args)"
  by (simp add: main_def generation_args_def unparsable_melody_env_def failing_write_env_def
      example_env_def create_lead_sheet_def example_melody_part_def Let_def)

end
